theory Spec2Isabelle
  imports Main "HOL-Library.AList"
begin

section \<open>The document: containers, rows and feedback elements\<close>

text \<open>
  The functions of \<^verbatim>\<open>double_entry/static/js/submit-transactions.js\<close> read and write a
  live document. The part of the document they touch is embedded as data:
  a document is a sequence of containers in document order, a container holds its
  \<^verbatim>\<open>.resolved-transaction\<close> rows in document order, and a row holds the first
  \<^verbatim>\<open>.transaction-feedback\<close> element below it, if there is one.

  Of a feedback element the functions use \<^verbatim>\<open>dataset.verdict\<close>, \<^verbatim>\<open>dataset.commit\<close>
  (a string, or absent) and \<^verbatim>\<open>innerHTML\<close>. Of a row they use the \<^verbatim>\<open>id\<close> and the
  attribute list (\<^verbatim>\<open>this.attributes\<close>: name, value and the \<^verbatim>\<open>specified\<close> flag of
  every attribute, in order). Of a container they use the \<^verbatim>\<open>id\<close> and the attribute
  \<^verbatim>\<open>data-pipeline-section-id\<close>, which \<^verbatim>\<open>.attr\<close> reads as a string or as undefined.

  A selector \<^verbatim>\<open>#x\<close> built from a transaction id is looked up among the rows, one built
  from a container id among the containers.

  The exceptions: the TypeError of a property read on null or undefined, and the error
  that jQuery throws on text that is no selector (\<^verbatim>\<open>Syntax error, unrecognized
  expression\<close>).
\<close>

datatype error = TypeError | SyntaxError

datatype jsval = JStr string | JBool bool

record attr =
  attr_name :: string
  attr_value :: string
  attr_specified :: bool

record feedback =
  ds_verdict :: "string option"
  ds_commit :: "string option"
  innerHTML :: string

record row =
  row_id :: string
  row_attributes :: "attr list"
  row_feedback :: "feedback option"

record container =
  container_id :: string
  pipeline_section_attr :: "string option"
  container_rows :: "row list"

type_synonym dom = "container list"

text \<open>A JavaScript object with string keys: assignment to an existing key keeps the
  key's position, assignment to a new key appends it (\<^const>\<open>AList.update\<close>). Keys that
  are array indices, which JavaScript enumerates before the others, keep their place in
  the model; the properties below read the object through \<^const>\<open>map_of\<close> or on keys that
  are no indices.\<close>

type_synonym row_data = "(string \<times> jsval) list"

definition all_rows :: "dom \<Rightarrow> row list" where
  "all_rows d = concat (map container_rows d)"

section \<open>collectTransactions\<close>

text \<open>JavaScript truthiness of \<^verbatim>\<open>dataset.commit\<close>: undefined and the empty string
  are falsy, every other string is truthy.\<close>

definition truthy :: "string option \<Rightarrow> bool" where
  "truthy v = (case v of None \<Rightarrow> False | Some s \<Rightarrow> s \<noteq> [])"

text \<open>\<^verbatim>\<open>attr.name.substring(5).replace(/-/g, '_')\<close>\<close>

definition parameterName :: "string \<Rightarrow> string" where
  "parameterName n = map (\<lambda>c. if c = CHR ''-'' then CHR ''_'' else c) (drop 5 n)"

text \<open>The body of the \<^verbatim>\<open>$.each(this.attributes, ...)\<close> callback. The assignment
  \<^verbatim>\<open>row_data[parameterName] = attr.value\<close> creates or overwrites a property, except for
  the key \<^verbatim>\<open>__proto__\<close>: that assignment goes to the setter inherited from
  \<^verbatim>\<open>Object.prototype\<close>, which ignores a string, and the object gets no property.\<close>

definition copy_attr :: "attr \<Rightarrow> row_data \<Rightarrow> row_data" where
  "copy_attr a row_data =
     (if take 5 (attr_name a) = ''data-'' \<and> attr_specified a
      then (if parameterName (attr_name a) = ''__proto__'' then row_data
            else AList.update (parameterName (attr_name a)) (JStr (attr_value a)) row_data)
      else row_data)"

text \<open>Lines 10 to 28 of the \<^verbatim>\<open>.map\<close> callback: the record built for a row that passed
  the commit test, from the container's section id, the row and its feedback element.\<close>

definition build_row_data :: "string option \<Rightarrow> row \<Rightarrow> feedback \<Rightarrow> row_data" where
  "build_row_data pipelineSectionId r fb =
     (let row_data = [(''transaction_id'', JStr (row_id r))];
          row_data = (case pipelineSectionId of
                        None \<Rightarrow> row_data
                      | Some p \<Rightarrow> AList.update ''pipeline_section_id'' (JStr p) row_data);
          row_data = fold copy_attr (row_attributes r) row_data
      in if ds_verdict fb \<noteq> Some ''commit''
         then AList.update ''do_not_skip'' (JBool True) row_data
         else row_data)"

text \<open>The whole \<^verbatim>\<open>.map\<close> callback. \<^verbatim>\<open>this.querySelector\<close> gives null for a row with no
  feedback element, and reading \<^verbatim>\<open>.dataset\<close> of null throws. A null result (\<open>None\<close>)
  tells jQuery to add nothing for this row.\<close>

definition collect_row :: "string option \<Rightarrow> row \<Rightarrow> error + row_data option" where
  "collect_row pipelineSectionId r =
     (case row_feedback r of
        None \<Rightarrow> Inl TypeError
      | Some fb \<Rightarrow>
          if \<not> truthy (ds_commit fb) then Inr None
          else Inr (Some (build_row_data pipelineSectionId r fb)))"

text \<open>jQuery's \<^verbatim>\<open>.map(f).get()\<close>: the callback runs on the elements in order, null
  results are dropped, and an exception of the callback ends the loop.\<close>

fun jq_map :: "('a \<Rightarrow> error + 'b option) \<Rightarrow> 'a list \<Rightarrow> error + 'b list" where
  "jq_map f [] = Inr []"
| "jq_map f (x # xs) =
     (case f x of
        Inl e \<Rightarrow> Inl e
      | Inr y \<Rightarrow>
          (case jq_map f xs of
             Inl e \<Rightarrow> Inl e
           | Inr ys \<Rightarrow> Inr (case y of None \<Rightarrow> ys | Some v \<Rightarrow> v # ys)))"

text \<open>\<^verbatim>\<open>$(`#${elementId}`).attr('data-pipeline-section-id')\<close>: the attribute of the
  first element with that id, undefined when there is no such element or attribute.\<close>

definition section_id_of :: "dom \<Rightarrow> string \<Rightarrow> string option" where
  "section_id_of d elementId =
     (case find (\<lambda>c. container_id c = elementId) d of
        None \<Rightarrow> None
      | Some c \<Rightarrow> pipeline_section_attr c)"

text \<open>\<^verbatim>\<open>$(`#${elementId} .resolved-transaction`)\<close>: the rows below an element with
  that id, in document order.\<close>

definition resolved_transactions :: "dom \<Rightarrow> string \<Rightarrow> row list" where
  "resolved_transactions d elementId =
     all_rows (filter (\<lambda>c. container_id c = elementId) d)"

definition collectTransactions :: "dom \<Rightarrow> string \<Rightarrow> error + row_data list" where
  "collectTransactions d elementId =
     (let pipelineSectionId = section_id_of d elementId;
          to_commit = resolved_transactions d elementId
      in jq_map (collect_row pipelineSectionId) to_commit)"

section \<open>markForCommit\<close>

text \<open>The function returns the resulting commit status and mutates the feedback element
  it was given; the model returns both.\<close>

definition markForCommit :: "feedback \<Rightarrow> bool \<Rightarrow> bool \<times> feedback" where
  "markForCommit feedbackElement commit =
     (case ds_verdict feedbackElement of
        None \<Rightarrow> (False, feedbackElement)
      | Some verdict \<Rightarrow>
          if verdict = ''discard'' then (False, feedbackElement)
          else if commit then (True, feedbackElement\<lparr>ds_commit := Some ''true''\<rparr>)
          else (False, feedbackElement\<lparr>ds_commit := None\<rparr>))"

section \<open>processResponse\<close>

record response_entry =
  transaction_id :: string
  errors :: "string list"
  warnings :: "string list"
  verdict :: int
  committed :: "bool option"

text \<open>A parameter with a default value: the default stands in for undefined.\<close>

definition or_default :: "'a \<Rightarrow> 'a option \<Rightarrow> 'a" where
  "or_default dflt v = (case v of None \<Rightarrow> dflt | Some x \<Rightarrow> x)"

text \<open>\<^verbatim>\<open>$(`#${transaction_id}`)\<close> on the document, for a transaction id that is an id
  and nothing else to jQuery (one or more letters, digits, underscores and hyphens, which
  it looks up with \<^verbatim>\<open>getElementById\<close>): the first row with that id in document order,
  or the empty jQuery set. Any other text after the \<^verbatim>\<open>#\<close> is parsed as a selector and
  may select other elements or, as the empty id does, make jQuery throw; the outcome of
  the call is therefore an argument of \<open>processResponse_on\<close> below.\<close>

definition jq_row :: "dom \<Rightarrow> string \<Rightarrow> row option" where
  "jq_row d tid = find (\<lambda>r. row_id r = tid) (all_rows d)"

text \<open>\<^verbatim>\<open>element.find('.transaction-feedback')[0]\<close>: undefined for the empty set and for
  a row with no feedback element.\<close>

definition find_feedback :: "row option \<Rightarrow> feedback option" where
  "find_feedback element = (case element of None \<Rightarrow> None | Some r \<Rightarrow> row_feedback r)"

text \<open>Changing the document at the first element that satisfies \<open>P\<close>: the element is
  replaced by the list \<open>f x\<close> (empty to remove it, one element to update it).\<close>

fun replace_first :: "('a \<Rightarrow> bool) \<Rightarrow> ('a \<Rightarrow> 'a list) \<Rightarrow> 'a list \<Rightarrow> 'a list" where
  "replace_first P f [] = []"
| "replace_first P f (x # xs) = (if P x then f x @ xs else x # replace_first P f xs)"

definition holds_row :: "string \<Rightarrow> container \<Rightarrow> bool" where
  "holds_row tid c = (\<exists>r \<in> set (container_rows c). row_id r = tid)"

definition change_row :: "string \<Rightarrow> (row \<Rightarrow> row list) \<Rightarrow> dom \<Rightarrow> dom" where
  "change_row tid f d =
     replace_first (holds_row tid)
       (\<lambda>c. [c\<lparr>container_rows := replace_first (\<lambda>r. row_id r = tid) f (container_rows c)\<rparr>]) d"

text \<open>\<^verbatim>\<open>element.remove()\<close>; on the empty set it does nothing.\<close>

definition remove_element :: "string \<Rightarrow> dom \<Rightarrow> dom" where
  "remove_element tid d = change_row tid (\<lambda>r. []) d"

text \<open>The writes to \<^verbatim>\<open>elementFeedback\<close> seen in the document: the feedback element of
  the selected row becomes \<open>fb\<close>.\<close>

definition put_feedback :: "string \<Rightarrow> feedback \<Rightarrow> dom \<Rightarrow> dom" where
  "put_feedback tid fb d = change_row tid (\<lambda>r. [r\<lparr>row_feedback := Some fb\<rparr>]) d"

text \<open>The \<^verbatim>\<open>switch(verdict)\<close>: strict comparison with 0, 1 and 3, no default case.\<close>

definition apply_verdict :: "int \<Rightarrow> feedback \<Rightarrow> feedback" where
  "apply_verdict v elementFeedback =
     (if v = 0 then elementFeedback\<lparr>ds_verdict := Some ''commit'', ds_commit := Some ''true''\<rparr>
      else if v = 1 then elementFeedback\<lparr>ds_verdict := Some ''suggest-skip'', ds_commit := None\<rparr>
      else if v = 3 then elementFeedback\<lparr>ds_verdict := Some ''discard'', ds_commit := None\<rparr>
      else elementFeedback)"

text \<open>An array inside a template literal is converted by \<^verbatim>\<open>toString\<close>, which joins the
  items with commas.\<close>

fun join_comma :: "string list \<Rightarrow> string" where
  "join_comma [] = []"
| "join_comma [x] = x"
| "join_comma (x # y # ys) = x @ '','' @ join_comma (y # ys)"

definition list_items :: "string list \<Rightarrow> string" where
  "list_items xs = join_comma (map (\<lambda>err. ''<li>'' @ err @ ''</li>'') xs)"

definition feedback_markup :: "string list \<Rightarrow> string list \<Rightarrow> string" where
  \<open>feedback_markup errs warns =
     (let feedback = [];
          feedback = (if errs \<noteq> []
                      then ''<ul class="transaction-errors">'' @ list_items errs @ ''</ul><br/>''
                      else feedback)
      in if warns \<noteq> []
         then feedback @ ''<ul class="transaction-warnings">'' @ list_items warns @ ''</ul>''
         else feedback)\<close>

text \<open>The jQuery set \<^verbatim>\<open>element\<close> holds the selected row or nothing.
  \<^verbatim>\<open>element.remove()\<close> takes the row out of the document, and the writes to
  \<^verbatim>\<open>elementFeedback\<close> change the feedback element of that row.\<close>

definition jq_remove :: "row option \<Rightarrow> dom \<Rightarrow> dom" where
  "jq_remove element d = (case element of None \<Rightarrow> d | Some r \<Rightarrow> remove_element (row_id r) d)"

definition jq_write_feedback :: "row option \<Rightarrow> feedback \<Rightarrow> dom \<Rightarrow> dom" where
  "jq_write_feedback element fb d =
     (case element of None \<Rightarrow> d | Some r \<Rightarrow> put_feedback (row_id r) fb d)"

text \<open>
  \<^verbatim>\<open>processResponse\<close> of \<^verbatim>\<open>double_entry/static/js/submit-transactions.js\<close>, from the
  outcome \<open>selected\<close> of the call of \<^verbatim>\<open>$\<close> in line 54: the jQuery set, or the
  exception of jQuery, which leaves the function. When \<^verbatim>\<open>elementFeedback\<close> is
  undefined, the update path throws a TypeError: in the switch for the verdicts 0, 1 and
  3, at the assignment to \<^verbatim>\<open>innerHTML\<close> for any other verdict; in both cases before
  anything is written.
\<close>

definition processResponse_on ::
  "error + row option \<Rightarrow> dom \<Rightarrow> response_entry \<Rightarrow> bool option \<Rightarrow> error + dom" where
  "processResponse_on selected d entry commitIntention_arg =
     (let committed_v = or_default False (committed entry);
          commitIntention = or_default False commitIntention_arg
      in case selected of
           Inl e \<Rightarrow> Inl e
         | Inr element \<Rightarrow>
             (let elementFeedback = find_feedback element
              in if commitIntention \<and> (committed_v \<or> verdict entry > 0)
                 then Inr (jq_remove element d)
                 else (case elementFeedback of
                         None \<Rightarrow> Inl TypeError
                       | Some fb \<Rightarrow>
                           Inr (jq_write_feedback element
                                  ((apply_verdict (verdict entry) fb)
                                     \<lparr>innerHTML := feedback_markup (errors entry) (warnings entry)\<rparr>)
                                  d))))"

text \<open>The function on a document and a transaction id that \<^const>\<open>jq_row\<close> covers.\<close>

definition processResponse :: "dom \<Rightarrow> response_entry \<Rightarrow> bool option \<Rightarrow> error + dom" where
  "processResponse d entry commitIntention_arg =
     processResponse_on (Inr (jq_row d (transaction_id entry))) d entry commitIntention_arg"

text \<open>
  The other revision of the function in the repository (\<^verbatim>\<open>src/unnamed/part_000\<close>, lines
  32 to 65) differs in the removal test,
  \<^verbatim>\<open>committed || (commitIntention && verdict > 0)\<close>, and in the markup.
\<close>

definition feedback_markup_unnamed :: "string list \<Rightarrow> string list \<Rightarrow> string" where
  \<open>feedback_markup_unnamed errs warns =
     (let verdictFeedback = ''<span class="verdict-feedback"></span><br/>'';
          errorFeedback = (if errs \<noteq> []
                           then ''<ul class="transaction-errors">'' @ list_items errs @ ''</ul>''
                           else []);
          warningFeedback = (if warns \<noteq> []
                             then ''<br/><ul class="transaction-warnings">'' @ list_items warns @ ''</ul>''
                             else [])
      in verdictFeedback @ errorFeedback @ warningFeedback)\<close>

definition processResponse_unnamed_on ::
  "error + row option \<Rightarrow> dom \<Rightarrow> response_entry \<Rightarrow> bool option \<Rightarrow> error + dom" where
  "processResponse_unnamed_on selected d entry commitIntention_arg =
     (let committed_v = or_default False (committed entry);
          commitIntention = or_default False commitIntention_arg
      in case selected of
           Inl e \<Rightarrow> Inl e
         | Inr element \<Rightarrow>
             (let elementFeedback = find_feedback element
              in if committed_v \<or> (commitIntention \<and> verdict entry > 0)
                 then Inr (jq_remove element d)
                 else (case elementFeedback of
                         None \<Rightarrow> Inl TypeError
                       | Some fb \<Rightarrow>
                           Inr (jq_write_feedback element
                                  ((apply_verdict (verdict entry) fb)
                                     \<lparr>innerHTML := feedback_markup_unnamed (errors entry) (warnings entry)\<rparr>)
                                  d))))"

definition processResponse_unnamed :: "dom \<Rightarrow> response_entry \<Rightarrow> bool option \<Rightarrow> error + dom" where
  "processResponse_unnamed d entry commitIntention_arg =
     processResponse_unnamed_on (Inr (jq_row d (transaction_id entry))) d entry commitIntention_arg"

section \<open>submitTransactions\<close>

record post_data =
  pd_commit :: bool
  pd_transactions :: "row_data list"

text \<open>The settings object given to \<^verbatim>\<open>$.ajax\<close>; \<open>data\<close> is the object that
  \<^verbatim>\<open>JSON.stringify\<close> serialises.\<close>

record ajax_request =
  url :: string
  http_method :: string
  dataType :: string
  data :: post_data

record response =
  pipeline_responses :: "response_entry list"

text \<open>\<^verbatim>\<open>Array.prototype.map\<close> with a callback that may throw.\<close>

fun array_map :: "('a \<Rightarrow> error + 'b) \<Rightarrow> 'a list \<Rightarrow> error + 'b list" where
  "array_map f [] = Inr []"
| "array_map f (x # xs) =
     (case f x of
        Inl e \<Rightarrow> Inl e
      | Inr y \<Rightarrow> (case array_map f xs of Inl e \<Rightarrow> Inl e | Inr ys \<Rightarrow> Inr (y # ys)))"

text \<open>The synchronous part: everything up to the call of \<^verbatim>\<open>$.ajax\<close>, whose argument is
  the result. An exception of the collector leaves before any request is made.\<close>

definition submitTransactions :: "dom \<Rightarrow> string \<Rightarrow> string list \<Rightarrow> bool option \<Rightarrow> error + ajax_request" where
  "submitTransactions d endpointUrl elementIds commit_arg =
     (let commit = or_default True commit_arg
      in case array_map (collectTransactions d) elementIds of
           Inl e \<Rightarrow> Inl e
         | Inr transactionLists \<Rightarrow>
             (let transactions = concat transactionLists;
                  postData = \<lparr>pd_commit = commit, pd_transactions = transactions\<rparr>
              in Inr \<lparr>url = endpointUrl, http_method = ''post'', dataType = ''json'', data = postData\<rparr>))"

text \<open>\<^verbatim>\<open>Array.prototype.forEach\<close> over a state \<open>'s\<close> that the callback may change; an
  exception of the callback ends the loop.\<close>

fun forEach :: "('a \<Rightarrow> 's \<Rightarrow> error + 's) \<Rightarrow> 'a list \<Rightarrow> 's \<Rightarrow> error + 's" where
  "forEach f [] s = Inr s"
| "forEach f (x # xs) s = (case f x s of Inl e \<Rightarrow> Inl e | Inr s' \<Rightarrow> forEach f xs s')"

text \<open>The \<^verbatim>\<open>.done\<close> handler, run on the response of the server. The callbacks act on a
  state \<open>'s\<close>: the document for \<^verbatim>\<open>processResponse\<close>. \<^verbatim>\<open>extraCallback\<close> is null
  (\<open>None\<close>) or a function.\<close>

definition submitTransactions_done ::
  "bool option \<Rightarrow> (response_entry \<Rightarrow> bool \<Rightarrow> 's \<Rightarrow> error + 's) \<Rightarrow>
   (response \<Rightarrow> 's \<Rightarrow> error + 's) option \<Rightarrow> response \<Rightarrow> 's \<Rightarrow> error + 's" where
  "submitTransactions_done commit_arg responseCallback extraCallback resp s =
     (let commit = or_default True commit_arg
      in case forEach (\<lambda>r. responseCallback r commit) (pipeline_responses resp) s of
           Inl e \<Rightarrow> Inl e
         | Inr s' \<Rightarrow>
             (case extraCallback of
                None \<Rightarrow> Inr s'
              | Some extra \<Rightarrow> extra resp s'))"

text \<open>The default value of \<^verbatim>\<open>responseCallback\<close>.\<close>

definition processResponse_callback :: "response_entry \<Rightarrow> bool \<Rightarrow> dom \<Rightarrow> error + dom" where
  "processResponse_callback entry commit d = processResponse d entry (Some commit)"

section \<open>Notions used to state the properties\<close>

text \<open>A row is marked for commit when its feedback element has a truthy commit flag.\<close>

definition commit_marked :: "row \<Rightarrow> bool" where
  "commit_marked r = (case row_feedback r of None \<Rightarrow> False | Some fb \<Rightarrow> truthy (ds_commit fb))"

text \<open>The record the collector builds for a row that has a feedback element.\<close>

definition row_record :: "string option \<Rightarrow> row \<Rightarrow> row_data" where
  "row_record p r = (case row_feedback r of None \<Rightarrow> [] | Some fb \<Rightarrow> build_row_data p r fb)"

text \<open>The attributes that the \<^verbatim>\<open>$.each\<close> callback copies.\<close>

definition is_data_attr :: "attr \<Rightarrow> bool" where
  "is_data_attr a = (take 5 (attr_name a) = ''data-'' \<and> attr_specified a)"



subsection \<open>The session as a transition system\<close>

text \<open>\<^verbatim>\<open>markForCommit\<close> applied to the feedback element of row \<open>j\<close> of container \<open>i\<close>:
  the element is mutated in place.\<close>

definition set_row_feedback :: "nat \<Rightarrow> nat \<Rightarrow> feedback \<Rightarrow> dom \<Rightarrow> dom" where
  "set_row_feedback i j fb d =
     d[i := (d ! i)\<lparr>container_rows :=
              (container_rows (d ! i))[j := (container_rows (d ! i) ! j)\<lparr>row_feedback := Some fb\<rparr>]\<rparr>]"

text \<open>One operation on the document: \<^verbatim>\<open>markForCommit\<close> on any feedback element of the
  document with any flag, or \<^verbatim>\<open>processResponse\<close> on any entry with any commit intent.
  A call of \<^verbatim>\<open>processResponse\<close> that throws has written nothing and is no step.\<close>

inductive step :: "dom \<Rightarrow> dom \<Rightarrow> bool" where
  step_mark:
    "i < length d \<Longrightarrow> j < length (container_rows (d ! i)) \<Longrightarrow>
     row_feedback (container_rows (d ! i) ! j) = Some fb \<Longrightarrow>
     step d (set_row_feedback i j (snd (markForCommit fb commit)) d)"
| step_response:
    "processResponse d entry ci = Inr d' \<Longrightarrow> step d d'"

text \<open>A property of every feedback element of the document.\<close>

definition all_feedback :: "(feedback \<Rightarrow> bool) \<Rightarrow> dom \<Rightarrow> bool" where
  "all_feedback Q d = (\<forall>r \<in> set (all_rows d). case row_feedback r of None \<Rightarrow> True | Some fb \<Rightarrow> Q fb)"

definition discard_and_commit :: "feedback \<Rightarrow> bool" where
  "discard_and_commit fb = (ds_verdict fb = Some ''discard'' \<and> ds_commit fb \<noteq> None)"

definition no_discard_commit :: "dom \<Rightarrow> bool" where
  "no_discard_commit d = all_feedback (\<lambda>fb. \<not> discard_and_commit fb) d"

text \<open>No verdict yet, or the verdict \<^verbatim>\<open>discard\<close>: the two cases in which
  \<^verbatim>\<open>markForCommit\<close> does nothing.\<close>

definition locked :: "feedback \<Rightarrow> bool" where
  "locked fb = (ds_verdict fb = None \<or> ds_verdict fb = Some ''discard'')"

definition locked_unmarked :: "dom \<Rightarrow> bool" where
  "locked_unmarked d = all_feedback (\<lambda>fb. locked fb \<longrightarrow> ds_commit fb = None) d"

subsection \<open>Sample documents and responses\<close>

text \<open>The scenario of the specification: container \<^verbatim>\<open>batch1\<close> without a section id, one
  row \<^verbatim>\<open>t1\<close> whose feedback element has the commit flag and nothing else, and the data
  attribute \<^verbatim>\<open>data-amount="50"\<close>.\<close>

definition t1_feedback :: feedback where
  "t1_feedback = \<lparr>ds_verdict = None, ds_commit = Some ''true'', innerHTML = []\<rparr>"

definition t1_row :: row where
  "t1_row = \<lparr>row_id = ''t1'',
     row_attributes =
       [\<lparr>attr_name = ''id'', attr_value = ''t1'', attr_specified = True\<rparr>,
        \<lparr>attr_name = ''class'', attr_value = ''resolved-transaction'', attr_specified = True\<rparr>,
        \<lparr>attr_name = ''data-amount'', attr_value = ''50'', attr_specified = True\<rparr>],
     row_feedback = Some t1_feedback\<rparr>"

definition batch1 :: dom where
  "batch1 = [\<lparr>container_id = ''batch1'', pipeline_section_attr = None, container_rows = [t1_row]\<rparr>]"

text \<open>A container with a section id and three rows: marked after a clean verdict, not
  marked after a warning, marked by the user after a warning.\<close>

definition plain_row :: "string \<Rightarrow> string option \<Rightarrow> string option \<Rightarrow> row" where
  "plain_row i v c =
     \<lparr>row_id = i,
      row_attributes = [\<lparr>attr_name = ''id'', attr_value = i, attr_specified = True\<rparr>],
      row_feedback = Some \<lparr>ds_verdict = v, ds_commit = c, innerHTML = []\<rparr>\<rparr>"

definition batch2 :: dom where
  "batch2 = [\<lparr>container_id = ''batch2'', pipeline_section_attr = Some ''7'',
     container_rows = [plain_row ''a'' (Some ''commit'') (Some ''true''),
                       plain_row ''b'' (Some ''suggest-skip'') None,
                       plain_row ''c'' (Some ''suggest-skip'') (Some ''true'')]\<rparr>]"

text \<open>A row with two data attributes whose names differ only in a hyphen and an
  underscore.\<close>

definition clash_row :: row where
  "clash_row = \<lparr>row_id = ''t1'',
     row_attributes =
       [\<lparr>attr_name = ''data-a-b'', attr_value = ''1'', attr_specified = True\<rparr>,
        \<lparr>attr_name = ''data-a_b'', attr_value = ''2'', attr_specified = True\<rparr>],
     row_feedback = Some t1_feedback\<rparr>"

text \<open>A row with a data attribute whose key is \<^verbatim>\<open>__proto__\<close>.\<close>

definition proto_row :: row where
  "proto_row = \<lparr>row_id = ''t1'',
     row_attributes =
       [\<lparr>attr_name = ''data---proto--'', attr_value = ''1'', attr_specified = True\<rparr>],
     row_feedback = Some t1_feedback\<rparr>"

definition entry_for :: "string \<Rightarrow> int \<Rightarrow> bool option \<Rightarrow> response_entry" where
  "entry_for tid v c = \<lparr>transaction_id = tid, errors = [], warnings = [], verdict = v, committed = c\<rparr>"

text \<open>A page as the server renders it, before any response: one row without verdict and
  without commit flag. The same page after the server discarded the row.\<close>

definition fresh_page :: dom where
  "fresh_page = [\<lparr>container_id = ''batch3'', pipeline_section_attr = None,
     container_rows = [plain_row ''x'' None None]\<rparr>]"

definition discarded_page :: dom where
  "discarded_page = [\<lparr>container_id = ''batch3'', pipeline_section_attr = None,
     container_rows = [plain_row ''x'' (Some ''discard'') None]\<rparr>]"

text \<open>Callbacks that only record their calls, to observe the \<^verbatim>\<open>.done\<close> handler.\<close>

datatype callback_call = ResponseCallback response_entry bool | ExtraCallback response

definition record_response :: "response_entry \<Rightarrow> bool \<Rightarrow> callback_call list \<Rightarrow> callback_call list" where
  "record_response entry commit calls = calls @ [ResponseCallback entry commit]"

definition record_extra :: "response \<Rightarrow> callback_call list \<Rightarrow> callback_call list" where
  "record_extra resp calls = calls @ [ExtraCallback resp]"

section \<open>Auxiliary facts\<close>

subsection \<open>The collector's loop\<close>

lemma jq_map_collect_ok:
  "\<forall>r \<in> set rows. row_feedback r \<noteq> None \<Longrightarrow>
   jq_map (collect_row p) rows = Inr (map (row_record p) (filter commit_marked rows))"
  by (induction rows) (auto simp: collect_row_def commit_marked_def row_record_def)

lemma jq_map_collect_Inr:
  "jq_map (collect_row p) rows = Inr recs \<Longrightarrow> \<forall>r \<in> set rows. row_feedback r \<noteq> None"
  by (induction rows arbitrary: recs)
     (auto simp: collect_row_def split: option.splits sum.splits if_splits)

lemma collect_row_error: "collect_row p r = Inl e \<Longrightarrow> e = TypeError"
  by (auto simp: collect_row_def split: option.splits if_splits)

lemma jq_map_collect_error: "jq_map (collect_row p) rows = Inl e \<Longrightarrow> e = TypeError"
  by (induction rows) (auto split: sum.splits dest: collect_row_error)

lemma jq_map_collect_throws:
  assumes "\<exists>r \<in> set rows. row_feedback r = None"
  shows "jq_map (collect_row p) rows = Inl TypeError"
proof (cases "jq_map (collect_row p) rows")
  case (Inl e)
  then show ?thesis using jq_map_collect_error [of p rows e] by simp
next
  case (Inr recs)
  from jq_map_collect_Inr [OF this] assms show ?thesis by blast
qed

subsection \<open>The record as a map\<close>

lemma map_of_copy_attr:
  "map_of (copy_attr a rd) =
     (if is_data_attr a \<and> parameterName (attr_name a) \<noteq> ''__proto__''
      then (map_of rd)(parameterName (attr_name a) \<mapsto> JStr (attr_value a)) else map_of rd)"
  by (simp add: copy_attr_def is_data_attr_def update_conv')

lemma fold_copy_attr_no_bool:
  "\<forall>k b. map_of rd k \<noteq> Some (JBool b) \<Longrightarrow> map_of (fold copy_attr as rd) k \<noteq> Some (JBool b)"
  by (induction as arbitrary: rd) (auto simp: map_of_copy_attr)

lemma build_row_data_do_not_skip:
  "(map_of (build_row_data p r fb) ''do_not_skip'' = Some (JBool True)) =
   (ds_verdict fb \<noteq> Some ''commit'')"
proof -
  let ?init = "(case p of None \<Rightarrow> [(''transaction_id'', JStr (row_id r))]
      | Some q \<Rightarrow> AList.update ''pipeline_section_id'' (JStr q) [(''transaction_id'', JStr (row_id r))])"
  have "\<forall>k b. map_of ?init k \<noteq> Some (JBool b)"
    by (cases p) auto
  from fold_copy_attr_no_bool [OF this]
  have "map_of (fold copy_attr (row_attributes r) ?init) ''do_not_skip'' \<noteq> Some (JBool True)" .
  then show ?thesis
    by (simp add: build_row_data_def Let_def update_conv')
qed

lemmas sample_defs =
  batch1_def t1_row_def t1_feedback_def batch2_def plain_row_def clash_row_def entry_for_def
  proto_row_def
  fresh_page_def discarded_page_def

lemmas collector_defs =
  collectTransactions_def section_id_of_def resolved_transactions_def all_rows_def
  collect_row_def truthy_def build_row_data_def copy_attr_def parameterName_def

section \<open>The collector\<close>

text \<open>
  C4. The scenario of the specification: container \<^verbatim>\<open>batch1\<close> without section id, one
  row \<^verbatim>\<open>t1\<close> whose feedback element has the commit flag and no verdict, one data
  attribute \<^verbatim>\<open>data-amount="50"\<close>. The specification expects
  \<^verbatim>\<open>[{transaction_id:"t1", amount:"50"}]\<close>. The code returns a third field,
  \<^verbatim>\<open>do_not_skip: true\<close>: the test \<^verbatim>\<open>feedback.dataset.verdict !== 'commit'\<close> of line
  22 succeeds on the absent verdict, although, as the comment under it says, the field
  is meant for a row that the server has already warned about.
\<close>

theorem collect_batch1:
  "collectTransactions batch1 ''batch1'' =
     Inr [[(''transaction_id'', JStr ''t1''), (''amount'', JStr ''50''),
           (''do_not_skip'', JBool True)]]"
  by (simp add: sample_defs collector_defs)

text \<open>
  C6. In every container, a resolved-transaction row whose feedback element does not have
  a truthy commit flag contributes no record: when every row has its feedback element,
  the collector returns exactly one record per commit-marked row, in document order, and
  nothing for the other rows. (A row without feedback element makes
  \<^verbatim>\<open>feedback.dataset\<close> throw, and there is no output list at all.)
\<close>

theorem collect_only_commit_marked:
  "collectTransactions d elementId =
     (if \<forall>r \<in> set (resolved_transactions d elementId). row_feedback r \<noteq> None
      then Inr (map (row_record (section_id_of d elementId))
                  (filter commit_marked (resolved_transactions d elementId)))
      else Inl TypeError)"
proof (cases "\<forall>r \<in> set (resolved_transactions d elementId). row_feedback r \<noteq> None")
  case True
  then show ?thesis
    using jq_map_collect_ok [of "resolved_transactions d elementId" "section_id_of d elementId"]
    by (simp add: collectTransactions_def)
next
  case False
  then have "\<exists>r \<in> set (resolved_transactions d elementId). row_feedback r = None"
    by simp
  from jq_map_collect_throws [OF this] False show ?thesis
    by (simp add: collectTransactions_def)
qed

text \<open>C6 at a container with three rows, the second one not marked: two records.\<close>

theorem collect_only_commit_marked_witness:
  "collectTransactions batch2 ''batch2'' =
     Inr [[(''transaction_id'', JStr ''a''), (''pipeline_section_id'', JStr ''7'')],
          [(''transaction_id'', JStr ''c''), (''pipeline_section_id'', JStr ''7''),
           (''do_not_skip'', JBool True)]]
   \<and> map commit_marked (resolved_transactions batch2 ''batch2'') = [True, False, True]"
  using collect_only_commit_marked [of batch2 "''batch2''"]
  by (simp add: sample_defs collector_defs row_record_def commit_marked_def)

text \<open>What line 22 computes for a row that the collector includes: the record carries
  \<^verbatim>\<open>do_not_skip = true\<close> exactly when the verdict is not the string \<^verbatim>\<open>commit\<close>,
  and an absent verdict is not that string.\<close>

lemma collect_row_do_not_skip:
  assumes "row_feedback r = Some fb" and "collect_row p r = Inr (Some rec)"
  shows "(map_of rec ''do_not_skip'' = Some (JBool True)) = (ds_verdict fb \<noteq> Some ''commit'')"
proof -
  from assms have "rec = build_row_data p r fb"
    by (simp add: collect_row_def split: if_splits)
  then show ?thesis by (simp add: build_row_data_do_not_skip)
qed

text \<open>
  C3. The record of an included row should carry \<^verbatim>\<open>do_not_skip = true\<close> if and only
  if the verdict of the row's feedback element is present and not \<^verbatim>\<open>commit\<close>: the
  field tells the server that the user overrides a warning it gave (comment of lines 23
  to 25). At a row whose feedback element has the commit flag and no verdict, the row of
  the specification's scenario, the code does otherwise: the collector includes the row
  and its record carries \<^verbatim>\<open>do_not_skip = true\<close>, with no verdict present.
\<close>

theorem do_not_skip_without_verdict:
  "collect_row None t1_row = Inr (Some (build_row_data None t1_row t1_feedback))
   \<and> \<not> ((map_of (build_row_data None t1_row t1_feedback) ''do_not_skip'' = Some (JBool True))
        = (ds_verdict t1_feedback \<noteq> None \<and> ds_verdict t1_feedback \<noteq> Some ''commit''))"
  by (simp add: sample_defs collector_defs)

subsection \<open>Attribute names and record keys\<close>








text \<open>An attribute \<^verbatim>\<open>data---proto--\<close> has the key \<^verbatim>\<open>__proto__\<close> and leaves no field.\<close>

lemma proto_attribute_not_copied:
  "parameterName ''data---proto--'' = ''__proto__''
   \<and> build_row_data None proto_row t1_feedback
       = [(''transaction_id'', JStr ''t1''), (''do_not_skip'', JBool True)]"
  by (simp add: sample_defs build_row_data_def copy_attr_def parameterName_def)

section \<open>processResponse\<close>

subsection \<open>Changing the document at a row\<close>

lemma find_holds: "find P xs = Some r \<Longrightarrow> P r"
  by (induction xs) (auto split: if_splits)

lemma replace_first_append:
  "replace_first P f (xs @ ys) =
     (if \<exists>x \<in> set xs. P x then replace_first P f xs @ ys else xs @ replace_first P f ys)"
  by (induction xs) auto

lemma replace_first_absent: "find P xs = None \<Longrightarrow> replace_first P f xs = xs"
  by (induction xs) (auto split: if_splits)

lemma replace_first_remove:
  "find P xs = Some r \<Longrightarrow> replace_first P (\<lambda>x. []) xs = remove1 r xs"
  by (induction xs) (auto split: if_splits dest: find_holds)

lemma replace_first_find:
  "find P xs = Some r \<Longrightarrow> P (g r) \<Longrightarrow> find P (replace_first P (\<lambda>x. [g x]) xs) = Some (g r)"
  by (induction xs) (auto split: if_splits)

lemma replace_first_length_update: "length (replace_first P (\<lambda>x. [g x]) xs) = length xs"
  by (induction xs) auto

lemma replace_first_length_remove:
  "find P xs = Some r \<Longrightarrow> Suc (length (replace_first P (\<lambda>x. []) xs)) = length xs"
  by (induction xs) (auto split: if_splits)

text \<open>On the rows in document order, a change of the document is a change of the first
  row with the id.\<close>

lemma all_rows_change_row:
  "all_rows (change_row tid f d) = replace_first (\<lambda>r. row_id r = tid) f (all_rows d)"
  by (induction d) (auto simp: all_rows_def change_row_def holds_row_def replace_first_append)

lemma no_holder:
  "find (\<lambda>r. row_id r = tid) (all_rows d) = None \<Longrightarrow> find (holds_row tid) d = None"
  by (induction d) (auto simp: all_rows_def holds_row_def find_None_iff)

lemma change_row_absent: "jq_row d tid = None \<Longrightarrow> change_row tid f d = d"
  unfolding jq_row_def change_row_def by (rule replace_first_absent) (rule no_holder)

lemma remove_element_absent: "jq_row d tid = None \<Longrightarrow> remove_element tid d = d"
  by (simp add: remove_element_def change_row_absent)

lemma all_rows_remove_element:
  "jq_row d tid = Some r \<Longrightarrow> all_rows (remove_element tid d) = remove1 r (all_rows d)"
  by (simp add: remove_element_def all_rows_change_row jq_row_def replace_first_remove)

lemma jq_row_put_feedback:
  "jq_row d tid = Some r \<Longrightarrow>
   jq_row (put_feedback tid fb d) tid = Some (r\<lparr>row_feedback := Some fb\<rparr>)"
  unfolding jq_row_def put_feedback_def all_rows_change_row
  using replace_first_find [where P = "\<lambda>r. row_id r = tid" and g = "\<lambda>r. r\<lparr>row_feedback := Some fb\<rparr>"]
  by (auto dest: find_holds)

lemma length_put_feedback: "length (all_rows (put_feedback tid fb d)) = length (all_rows d)"
  by (simp add: put_feedback_def all_rows_change_row replace_first_length_update)

lemma length_remove_element:
  "jq_row d tid = Some r \<Longrightarrow> Suc (length (all_rows (remove_element tid d))) = length (all_rows d)"
  by (simp add: remove_element_def all_rows_change_row jq_row_def replace_first_length_remove)

lemma put_feedback_not_removal:
  assumes "jq_row d tid = Some r"
  shows "put_feedback tid fb d \<noteq> remove_element tid d"
proof
  assume "put_feedback tid fb d = remove_element tid d"
  then have "length (all_rows (put_feedback tid fb d)) = length (all_rows (remove_element tid d))"
    by simp
  with length_put_feedback [of tid fb d] length_remove_element [OF assms] show False by simp
qed

subsection \<open>The function on a document\<close>

lemma jq_row_id: "jq_row d tid = Some r \<Longrightarrow> row_id r = tid"
  unfolding jq_row_def by (rule find_holds)

text \<open>With the row looked up by its id, removal and writes go to the first row with the
  id of the entry.\<close>

lemma processResponse_unfold:
  "processResponse d entry ci =
     (if or_default False ci \<and> (or_default False (committed entry) \<or> verdict entry > 0)
      then Inr (remove_element (transaction_id entry) d)
      else (case find_feedback (jq_row d (transaction_id entry)) of
              None \<Rightarrow> Inl TypeError
            | Some fb \<Rightarrow>
                Inr (put_feedback (transaction_id entry)
                       ((apply_verdict (verdict entry) fb)
                          \<lparr>innerHTML := feedback_markup (errors entry) (warnings entry)\<rparr>) d)))"
proof (cases "jq_row d (transaction_id entry)")
  case None
  then show ?thesis
    by (simp add: processResponse_def processResponse_on_def Let_def jq_remove_def
          find_feedback_def remove_element_absent)
next
  case (Some r)
  with jq_row_id [OF Some] show ?thesis
    by (auto simp: processResponse_def processResponse_on_def Let_def jq_remove_def
          jq_write_feedback_def find_feedback_def split: option.splits)
qed

lemma processResponse_unnamed_unfold:
  "processResponse_unnamed d entry ci =
     (if or_default False (committed entry) \<or> (or_default False ci \<and> verdict entry > 0)
      then Inr (remove_element (transaction_id entry) d)
      else (case find_feedback (jq_row d (transaction_id entry)) of
              None \<Rightarrow> Inl TypeError
            | Some fb \<Rightarrow>
                Inr (put_feedback (transaction_id entry)
                       ((apply_verdict (verdict entry) fb)
                          \<lparr>innerHTML := feedback_markup_unnamed (errors entry) (warnings entry)\<rparr>) d)))"
proof (cases "jq_row d (transaction_id entry)")
  case None
  then show ?thesis
    by (simp add: processResponse_unnamed_def processResponse_unnamed_on_def Let_def jq_remove_def
          find_feedback_def remove_element_absent)
next
  case (Some r)
  with jq_row_id [OF Some] show ?thesis
    by (auto simp: processResponse_unnamed_def processResponse_unnamed_on_def Let_def jq_remove_def
          jq_write_feedback_def find_feedback_def split: option.splits)
qed

subsection \<open>The two paths of the function\<close>

lemma processResponse_removal_path:
  "or_default False ci \<and> (or_default False (committed entry) \<or> verdict entry > 0) \<Longrightarrow>
   processResponse d entry ci = Inr (remove_element (transaction_id entry) d)"
  by (simp add: processResponse_unfold Let_def)

lemma processResponse_update_path:
  assumes "\<not> (or_default False ci \<and> (or_default False (committed entry) \<or> verdict entry > 0))"
    and "jq_row d (transaction_id entry) = Some r" and "row_feedback r = Some fb"
  shows "processResponse d entry ci =
     Inr (put_feedback (transaction_id entry)
           ((apply_verdict (verdict entry) fb)
              \<lparr>innerHTML := feedback_markup (errors entry) (warnings entry)\<rparr>) d)"
  using assms by (auto simp: processResponse_unfold Let_def find_feedback_def)

lemma processResponse_throws:
  assumes "\<not> (or_default False ci \<and> (or_default False (committed entry) \<or> verdict entry > 0))"
    and "find_feedback (jq_row d (transaction_id entry)) = None"
  shows "processResponse d entry ci = Inl TypeError"
  using assms by (auto simp: processResponse_unfold Let_def)

lemma processResponse_removal:
  "(processResponse d entry ci = Inr (remove_element (transaction_id entry) d)) =
   (or_default False ci \<and> (or_default False (committed entry) \<or> verdict entry > 0))"
proof (cases "jq_row d (transaction_id entry)")
  case None
  then show ?thesis by (simp add: processResponse_unfold Let_def find_feedback_def)
next
  case (Some r)
  then show ?thesis
    using put_feedback_not_removal [OF Some]
    by (auto simp: processResponse_unfold Let_def find_feedback_def split: option.splits)
qed

text \<open>The other revision (\<^verbatim>\<open>src/unnamed/part_000\<close>) removes on its own test.\<close>

lemma processResponse_unnamed_removal:
  "(processResponse_unnamed d entry ci = Inr (remove_element (transaction_id entry) d)) =
   (or_default False (committed entry) \<or> (or_default False ci \<and> verdict entry > 0))"
proof (cases "jq_row d (transaction_id entry)")
  case None
  then show ?thesis by (simp add: processResponse_unnamed_unfold Let_def find_feedback_def)
next
  case (Some r)
  then show ?thesis
    using put_feedback_not_removal [OF Some]
    by (auto simp: processResponse_unnamed_unfold Let_def find_feedback_def split: option.splits)
qed

lemmas response_defs =
  processResponse_unfold or_default_def jq_row_def find_feedback_def all_rows_def
  remove_element_def put_feedback_def change_row_def holds_row_def apply_verdict_def
  feedback_markup_def

subsection \<open>Removal\<close>

text \<open>
  C1. In the revision \<^verbatim>\<open>src/unnamed/part_000\<close>, whose removal test (line 36) is
  \<^verbatim>\<open>committed || (commitIntention && verdict > 0)\<close>: for every response entry and
  commit-intent flag, \<^verbatim>\<open>processResponse\<close> removes the row from the document, and does
  nothing else, if and only if the entry's committed field is true, or the commit-intent
  flag is true and the verdict is greater than 0. In particular a committed entry is
  removed also when the commit-intent flag is false. The result of the removal is the
  document without the first row that has the entry's id.
\<close>

theorem processResponse_unnamed_removes_iff:
  "(processResponse_unnamed d entry ci = Inr (remove_element (transaction_id entry) d))
     = (or_default False (committed entry) \<or> (or_default False ci \<and> verdict entry > 0))
   \<and> (committed entry = Some True \<longrightarrow>
         processResponse_unnamed d entry (Some False) = Inr (remove_element (transaction_id entry) d))
   \<and> (\<forall>r. jq_row d (transaction_id entry) = Some r \<longrightarrow>
          all_rows (remove_element (transaction_id entry) d) = remove1 r (all_rows d))"
proof (intro conjI impI allI)
  show "(processResponse_unnamed d entry ci = Inr (remove_element (transaction_id entry) d))
     = (or_default False (committed entry) \<or> (or_default False ci \<and> verdict entry > 0))"
    by (rule processResponse_unnamed_removal)
  show "processResponse_unnamed d entry (Some False) = Inr (remove_element (transaction_id entry) d)"
    if "committed entry = Some True"
    using that by (simp add: processResponse_unnamed_removal or_default_def)
  show "all_rows (remove_element (transaction_id entry) d) = remove1 r (all_rows d)"
    if "jq_row d (transaction_id entry) = Some r" for r
    using that by (rule all_rows_remove_element)
qed

text \<open>C1 at the scenario's document: a committed entry with verdict 0 and the
  commit-intent flag false.\<close>

theorem processResponse_unnamed_removes_iff_witness:
  "committed (entry_for ''t1'' 0 (Some True)) = Some True
   \<and> jq_row batch1 ''t1'' = Some t1_row
   \<and> all_rows (remove_element ''t1'' batch1) = []
   \<and> processResponse_unnamed batch1 (entry_for ''t1'' 0 (Some True)) (Some False)
       = Inr [\<lparr>container_id = ''batch1'', pipeline_section_attr = None, container_rows = []\<rparr>]"
  using processResponse_unnamed_removes_iff [of batch1 "entry_for ''t1'' 0 (Some True)" "Some False"]
  by (simp add: sample_defs response_defs)

text \<open>
  The revision in \<^verbatim>\<open>double_entry/static/js/submit-transactions.js\<close> has the test
  \<^verbatim>\<open>commitIntention && (committed || verdict > 0)\<close> (line 57): there the same entry
  without commit intent is not removed, and its row gets the verdict \<^verbatim>\<open>commit\<close>.
\<close>

lemma static_js_committed_without_intent:
  "processResponse batch1 (entry_for ''t1'' 0 (Some True)) (Some False)
     = Inr [\<lparr>container_id = ''batch1'', pipeline_section_attr = None,
             container_rows = [t1_row\<lparr>row_feedback :=
                Some \<lparr>ds_verdict = Some ''commit'', ds_commit = Some ''true'', innerHTML = []\<rparr>\<rparr>]\<rparr>]"
  by (simp add: sample_defs response_defs)

text \<open>
  C2 (amended). For every response entry with verdict 3 and committed absent or false,
  \<^verbatim>\<open>processResponse\<close> removes the row if and only if the commit-intent flag is true.
  With the flag false or absent the row stays in the document, and its feedback element
  gets the verdict \<^verbatim>\<open>discard\<close>, no commit flag and the new markup.
\<close>

theorem processResponse_discard:
  assumes "verdict entry = 3" and "or_default False (committed entry) = False"
  shows "(processResponse d entry ci = Inr (remove_element (transaction_id entry) d)) = (ci = Some True)
       \<and> (\<forall>r fb. ci \<noteq> Some True \<longrightarrow> jq_row d (transaction_id entry) = Some r \<longrightarrow>
             row_feedback r = Some fb \<longrightarrow>
             (\<exists>d'. processResponse d entry ci = Inr d'
                \<and> length (all_rows d') = length (all_rows d)
                \<and> jq_row d' (transaction_id entry) =
                    Some (r\<lparr>row_feedback := Some (fb\<lparr>ds_verdict := Some ''discard'', ds_commit := None,
                       innerHTML := feedback_markup (errors entry) (warnings entry)\<rparr>)\<rparr>)))"
proof (intro conjI allI impI)
  have ci: "or_default False ci = (ci = Some True)"
    by (cases ci) (auto simp: or_default_def)
  show "(processResponse d entry ci = Inr (remove_element (transaction_id entry) d)) = (ci = Some True)"
    using assms ci by (simp add: processResponse_removal)
  fix r fb
  assume no_intent: "ci \<noteq> Some True"
    and r: "jq_row d (transaction_id entry) = Some r" and fb: "row_feedback r = Some fb"
  let ?fb = "fb\<lparr>ds_verdict := Some ''discard'', ds_commit := None,
                 innerHTML := feedback_markup (errors entry) (warnings entry)\<rparr>"
  have "\<not> (or_default False ci \<and> (or_default False (committed entry) \<or> verdict entry > 0))"
    using no_intent ci by simp
  from processResponse_update_path [OF this r fb]
  have "processResponse d entry ci = Inr (put_feedback (transaction_id entry) ?fb d)"
    using assms(1) by (simp add: apply_verdict_def)
  then show "\<exists>d'. processResponse d entry ci = Inr d'
      \<and> length (all_rows d') = length (all_rows d)
      \<and> jq_row d' (transaction_id entry) = Some (r\<lparr>row_feedback := Some ?fb\<rparr>)"
    using length_put_feedback [of "transaction_id entry" ?fb d] jq_row_put_feedback [OF r, of ?fb]
    by simp
qed

text \<open>C2 (amended) at the scenario's document: removed with the flag, kept and marked
  \<^verbatim>\<open>discard\<close> without it.\<close>

theorem processResponse_discard_witness:
  "verdict (entry_for ''t1'' 3 None) = 3
   \<and> or_default False (committed (entry_for ''t1'' 3 None)) = False
   \<and> jq_row batch1 ''t1'' = Some t1_row
   \<and> processResponse batch1 (entry_for ''t1'' 3 None) (Some True)
       = Inr [\<lparr>container_id = ''batch1'', pipeline_section_attr = None, container_rows = []\<rparr>]
   \<and> processResponse batch1 (entry_for ''t1'' 3 None) (Some False)
       = Inr [\<lparr>container_id = ''batch1'', pipeline_section_attr = None,
               container_rows = [t1_row\<lparr>row_feedback :=
                  Some \<lparr>ds_verdict = Some ''discard'', ds_commit = None, innerHTML = []\<rparr>\<rparr>]\<rparr>]"
  using processResponse_discard [of "entry_for ''t1'' 3 None" batch1 "Some False"]
  by (simp add: sample_defs response_defs)

text \<open>C2 as stated fails: with verdict 3 and the commit-intent flag false the row is not
  removed.\<close>

theorem discard_without_intent_not_removed:
  "\<not> (processResponse batch1 (entry_for ''t1'' 3 None) (Some True) = Inr (remove_element ''t1'' batch1)
      \<and> processResponse batch1 (entry_for ''t1'' 3 None) (Some False) = Inr (remove_element ''t1'' batch1))"
  by (simp add: sample_defs response_defs)

subsection \<open>Verdict update\<close>

lemma processResponse_unnamed_update_path:
  assumes "\<not> (or_default False (committed entry) \<or> (or_default False ci \<and> verdict entry > 0))"
    and "jq_row d (transaction_id entry) = Some r" and "row_feedback r = Some fb"
  shows "processResponse_unnamed d entry ci =
     Inr (put_feedback (transaction_id entry)
           ((apply_verdict (verdict entry) fb)
              \<lparr>innerHTML := feedback_markup_unnamed (errors entry) (warnings entry)\<rparr>) d)"
  using assms by (auto simp: processResponse_unnamed_unfold find_feedback_def)

text \<open>What the update path leaves in the document, whatever the markup \<open>h\<close>.\<close>

lemma verdict_written:
  assumes "jq_row d tid = Some r"
  shows "\<exists>fb'. length (all_rows (put_feedback tid ((apply_verdict v fb)\<lparr>innerHTML := h\<rparr>) d))
              = length (all_rows d)
       \<and> jq_row (put_feedback tid ((apply_verdict v fb)\<lparr>innerHTML := h\<rparr>) d) tid
              = Some (r\<lparr>row_feedback := Some fb'\<rparr>)
       \<and> (v = 0 \<longrightarrow> ds_verdict fb' = Some ''commit'' \<and> ds_commit fb' = Some ''true'')
       \<and> (v = 1 \<longrightarrow> ds_verdict fb' = Some ''suggest-skip'' \<and> ds_commit fb' = None)
       \<and> (v = 3 \<longrightarrow> ds_verdict fb' = Some ''discard'' \<and> ds_commit fb' = None)
       \<and> (v \<notin> {0, 1, 3} \<longrightarrow> ds_verdict fb' = ds_verdict fb \<and> ds_commit fb' = ds_commit fb)"
proof -
  let ?fb = "(apply_verdict v fb)\<lparr>innerHTML := h\<rparr>"
  have "length (all_rows (put_feedback tid ?fb d)) = length (all_rows d)"
    by (rule length_put_feedback)
  moreover have "jq_row (put_feedback tid ?fb d) tid = Some (r\<lparr>row_feedback := Some ?fb\<rparr>)"
    by (rule jq_row_put_feedback [OF assms])
  moreover have "v = 0 \<longrightarrow> ds_verdict ?fb = Some ''commit'' \<and> ds_commit ?fb = Some ''true''"
    by (simp add: apply_verdict_def)
  moreover have "v = 1 \<longrightarrow> ds_verdict ?fb = Some ''suggest-skip'' \<and> ds_commit ?fb = None"
    by (simp add: apply_verdict_def)
  moreover have "v = 3 \<longrightarrow> ds_verdict ?fb = Some ''discard'' \<and> ds_commit ?fb = None"
    by (simp add: apply_verdict_def)
  moreover have "v \<notin> {0, 1, 3} \<longrightarrow> ds_verdict ?fb = ds_verdict fb \<and> ds_commit ?fb = ds_commit fb"
    by (simp add: apply_verdict_def)
  ultimately show ?thesis by blast
qed

text \<open>
  C7 (amended). For every response entry that the removal test of the revision does not
  remove, and whose row has its feedback element, \<^verbatim>\<open>processResponse\<close> keeps the row and
  sets the feedback verdict to \<^verbatim>\<open>commit\<close> for the code 0, \<^verbatim>\<open>suggest-skip\<close> for 1 and
  \<^verbatim>\<open>discard\<close> for 3; it sets the commit flag to \<^verbatim>\<open>true\<close> for the code 0 and clears
  it for 1 and 3, and for any other code it leaves verdict and flag as they were. This
  holds of the revision in \<^verbatim>\<open>static/js\<close> with its test
  \<^verbatim>\<open>commitIntention && (committed || verdict > 0)\<close> and of \<^verbatim>\<open>src/unnamed/part_000\<close>
  with its test \<^verbatim>\<open>committed || (commitIntention && verdict > 0)\<close>. In particular, for
  verdict 0, commit intent and committed absent or false, neither test holds: the row is
  not removed and ends with \<^verbatim>\<open>commit = true\<close> and \<^verbatim>\<open>verdict = commit\<close>.
\<close>

theorem processResponse_verdict_update:
  assumes "jq_row d (transaction_id entry) = Some r" and "row_feedback r = Some fb"
  shows "(\<not> (or_default False ci \<and> (or_default False (committed entry) \<or> verdict entry > 0)) \<longrightarrow>
          (\<exists>d' fb'. processResponse d entry ci = Inr d'
             \<and> length (all_rows d') = length (all_rows d)
             \<and> jq_row d' (transaction_id entry) = Some (r\<lparr>row_feedback := Some fb'\<rparr>)
             \<and> (verdict entry = 0 \<longrightarrow> ds_verdict fb' = Some ''commit'' \<and> ds_commit fb' = Some ''true'')
             \<and> (verdict entry = 1 \<longrightarrow> ds_verdict fb' = Some ''suggest-skip'' \<and> ds_commit fb' = None)
             \<and> (verdict entry = 3 \<longrightarrow> ds_verdict fb' = Some ''discard'' \<and> ds_commit fb' = None)
             \<and> (verdict entry \<notin> {0, 1, 3} \<longrightarrow>
                  ds_verdict fb' = ds_verdict fb \<and> ds_commit fb' = ds_commit fb)))
       \<and> (\<not> (or_default False (committed entry) \<or> (or_default False ci \<and> verdict entry > 0)) \<longrightarrow>
          (\<exists>d' fb'. processResponse_unnamed d entry ci = Inr d'
             \<and> length (all_rows d') = length (all_rows d)
             \<and> jq_row d' (transaction_id entry) = Some (r\<lparr>row_feedback := Some fb'\<rparr>)
             \<and> (verdict entry = 0 \<longrightarrow> ds_verdict fb' = Some ''commit'' \<and> ds_commit fb' = Some ''true'')
             \<and> (verdict entry = 1 \<longrightarrow> ds_verdict fb' = Some ''suggest-skip'' \<and> ds_commit fb' = None)
             \<and> (verdict entry = 3 \<longrightarrow> ds_verdict fb' = Some ''discard'' \<and> ds_commit fb' = None)
             \<and> (verdict entry \<notin> {0, 1, 3} \<longrightarrow>
                  ds_verdict fb' = ds_verdict fb \<and> ds_commit fb' = ds_commit fb)))"
proof (intro conjI impI)
  assume kept: "\<not> (or_default False ci \<and> (or_default False (committed entry) \<or> verdict entry > 0))"
  show "\<exists>d' fb'. processResponse d entry ci = Inr d'
             \<and> length (all_rows d') = length (all_rows d)
             \<and> jq_row d' (transaction_id entry) = Some (r\<lparr>row_feedback := Some fb'\<rparr>)
             \<and> (verdict entry = 0 \<longrightarrow> ds_verdict fb' = Some ''commit'' \<and> ds_commit fb' = Some ''true'')
             \<and> (verdict entry = 1 \<longrightarrow> ds_verdict fb' = Some ''suggest-skip'' \<and> ds_commit fb' = None)
             \<and> (verdict entry = 3 \<longrightarrow> ds_verdict fb' = Some ''discard'' \<and> ds_commit fb' = None)
             \<and> (verdict entry \<notin> {0, 1, 3} \<longrightarrow>
                  ds_verdict fb' = ds_verdict fb \<and> ds_commit fb' = ds_commit fb)"
    using processResponse_update_path [OF kept assms]
      verdict_written [OF assms(1), where v = "verdict entry" and fb = fb
        and h = "feedback_markup (errors entry) (warnings entry)"]
    by auto
next
  assume kept: "\<not> (or_default False (committed entry) \<or> (or_default False ci \<and> verdict entry > 0))"
  show "\<exists>d' fb'. processResponse_unnamed d entry ci = Inr d'
             \<and> length (all_rows d') = length (all_rows d)
             \<and> jq_row d' (transaction_id entry) = Some (r\<lparr>row_feedback := Some fb'\<rparr>)
             \<and> (verdict entry = 0 \<longrightarrow> ds_verdict fb' = Some ''commit'' \<and> ds_commit fb' = Some ''true'')
             \<and> (verdict entry = 1 \<longrightarrow> ds_verdict fb' = Some ''suggest-skip'' \<and> ds_commit fb' = None)
             \<and> (verdict entry = 3 \<longrightarrow> ds_verdict fb' = Some ''discard'' \<and> ds_commit fb' = None)
             \<and> (verdict entry \<notin> {0, 1, 3} \<longrightarrow>
                  ds_verdict fb' = ds_verdict fb \<and> ds_commit fb' = ds_commit fb)"
    using processResponse_unnamed_update_path [OF kept assms]
      verdict_written [OF assms(1), where v = "verdict entry" and fb = fb
        and h = "feedback_markup_unnamed (errors entry) (warnings entry)"]
    by auto
qed

text \<open>C7 (amended) at the second row of the three-row container: verdict 0 under commit
  intent, not committed. The row had no commit flag and the verdict \<^verbatim>\<open>suggest-skip\<close>.\<close>

theorem processResponse_verdict_update_witness:
  \<open>jq_row batch2 ''b'' = Some (plain_row ''b'' (Some ''suggest-skip'') None)
   \<and> \<not> (or_default False (Some True)
        \<and> (or_default False (committed (entry_for ''b'' 0 None)) \<or> verdict (entry_for ''b'' 0 None) > 0))
   \<and> \<not> (or_default False (committed (entry_for ''b'' 0 None))
        \<or> (or_default False (Some True) \<and> verdict (entry_for ''b'' 0 None) > 0))
   \<and> processResponse batch2 (entry_for ''b'' 0 None) (Some True)
       = Inr [\<lparr>container_id = ''batch2'', pipeline_section_attr = Some ''7'',
               container_rows = [plain_row ''a'' (Some ''commit'') (Some ''true''),
                                 plain_row ''b'' (Some ''commit'') (Some ''true''),
                                 plain_row ''c'' (Some ''suggest-skip'') (Some ''true'')]\<rparr>]
   \<and> processResponse_unnamed batch2 (entry_for ''b'' 0 None) (Some True)
       = Inr [\<lparr>container_id = ''batch2'', pipeline_section_attr = Some ''7'',
               container_rows =
                 [plain_row ''a'' (Some ''commit'') (Some ''true''),
                  (plain_row ''b'' (Some ''commit'') (Some ''true''))\<lparr>row_feedback :=
                     Some \<lparr>ds_verdict = Some ''commit'', ds_commit = Some ''true'',
                           innerHTML = ''<span class="verdict-feedback"></span><br/>''\<rparr>\<rparr>,
                  plain_row ''c'' (Some ''suggest-skip'') (Some ''true'')]\<rparr>]\<close>
  using processResponse_verdict_update
    [of batch2 "entry_for ''b'' 0 None" "plain_row ''b'' (Some ''suggest-skip'') None"
        "\<lparr>ds_verdict = Some ''suggest-skip'', ds_commit = None, innerHTML = []\<rparr>" "Some True"]
  by (simp add: sample_defs response_defs processResponse_unnamed_unfold
        feedback_markup_unnamed_def)

text \<open>
  C7 as stated fails for verdict 0 under commit intent when the entry is committed: the
  removal test holds, in both revisions, and the row is removed.
\<close>

theorem verdict_zero_committed_removed:
  "verdict (entry_for ''b'' 0 (Some True)) = 0
   \<and> processResponse batch2 (entry_for ''b'' 0 (Some True)) (Some True)
       = Inr [\<lparr>container_id = ''batch2'', pipeline_section_attr = Some ''7'',
               container_rows = [plain_row ''a'' (Some ''commit'') (Some ''true''),
                                 plain_row ''c'' (Some ''suggest-skip'') (Some ''true'')]\<rparr>]
   \<and> processResponse_unnamed batch2 (entry_for ''b'' 0 (Some True)) (Some True)
       = Inr [\<lparr>container_id = ''batch2'', pipeline_section_attr = Some ''7'',
               container_rows = [plain_row ''a'' (Some ''commit'') (Some ''true''),
                                 plain_row ''c'' (Some ''suggest-skip'') (Some ''true'')]\<rparr>]
   \<and> jq_row [\<lparr>container_id = ''batch2'', pipeline_section_attr = Some ''7'',
               container_rows = [plain_row ''a'' (Some ''commit'') (Some ''true''),
                                 plain_row ''c'' (Some ''suggest-skip'') (Some ''true'')]\<rparr>] ''b'' = None"
  by (simp add: sample_defs response_defs processResponse_unnamed_unfold)

subsection \<open>An entry for a row that is not in the document\<close>

text \<open>
  C10 (amended). For every response entry for which \<^verbatim>\<open>$(`#${transaction_id}`)\<close>
  returns the empty jQuery set (the id is selector text and no element of the document
  matches it), \<^verbatim>\<open>processResponse\<close> is a harmless no-op when the commit-intent flag is
  true and the entry is committed or has a verdict greater than 0: removing from the
  empty set does nothing, the call returns and the document is unchanged, in both
  revisions of the function. Whenever the call returns on the empty set, for either
  value of the flag, the document is unchanged.
\<close>

theorem processResponse_empty_selection:
  "(or_default False ci \<and> (or_default False (committed entry) \<or> verdict entry > 0)
      \<longrightarrow> processResponse_on (Inr None) d entry ci = Inr d
        \<and> processResponse_unnamed_on (Inr None) d entry ci = Inr d)
   \<and> (\<forall>d'. processResponse_on (Inr None) d entry ci = Inr d' \<longrightarrow> d' = d)
   \<and> (\<forall>d'. processResponse_unnamed_on (Inr None) d entry ci = Inr d' \<longrightarrow> d' = d)"
  by (auto simp: processResponse_on_def processResponse_unnamed_on_def Let_def jq_remove_def
        find_feedback_def)

text \<open>C10 (amended) on the scenario's document after its row was removed: a second
  response for the same row under commit intent.\<close>

theorem processResponse_empty_selection_witness:
  "or_default False (Some True)
   \<and> verdict (entry_for ''t1'' 1 None) > 0
   \<and> processResponse_on (Inr None) (remove_element ''t1'' batch1) (entry_for ''t1'' 1 None) (Some True)
       = Inr (remove_element ''t1'' batch1)
   \<and> processResponse_unnamed_on (Inr None) (remove_element ''t1'' batch1) (entry_for ''t1'' 1 None)
        (Some True)
       = Inr (remove_element ''t1'' batch1)"
  using processResponse_empty_selection
    [of "Some True" "entry_for ''t1'' 1 None" "remove_element ''t1'' batch1"]
  by (simp add: or_default_def entry_for_def)

text \<open>When jQuery throws on the text of the selector, as it does for the empty id, the
  exception leaves the function before the removal test.\<close>

lemma processResponse_selector_error:
  "processResponse_on (Inl SyntaxError) d entry ci = Inl SyntaxError
   \<and> processResponse_unnamed_on (Inl SyntaxError) d entry ci = Inl SyntaxError"
  by (simp add: processResponse_on_def processResponse_unnamed_on_def Let_def)

text \<open>
  C10 as stated fails for the commit-intent flag false: the entry is not removed, the
  update path reads \<^verbatim>\<open>elementFeedback.dataset\<close> of undefined, and the call throws.
\<close>

theorem absent_row_update_throws:
  "jq_row (remove_element ''t1'' batch1) ''t1'' = None
   \<and> processResponse (remove_element ''t1'' batch1) (entry_for ''t1'' 1 None) (Some False)
       = Inl TypeError
   \<and> processResponse_on (Inr None) (remove_element ''t1'' batch1) (entry_for ''t1'' 1 None)
        (Some False)
       = Inl TypeError"
  by (simp add: sample_defs response_defs processResponse_on_def)

section \<open>submitTransactions\<close>

lemma array_map_ok: "\<forall>x \<in> set xs. f x = Inr (g x) \<Longrightarrow> array_map f xs = Inr (map g xs)"
  by (induction xs) auto

lemma forEach_total: "forEach (\<lambda>x s. Inr (f x s)) xs s = Inr (fold f xs s)"
  by (induction xs arbitrary: s) auto

text \<open>
  C5. For every list of container ids on which the collector returns,
  \<^verbatim>\<open>submitTransactions\<close> makes one POST request to the endpoint whose body is
  \<^verbatim>\<open>{commit, transactions}\<close>, where \<^verbatim>\<open>transactions\<close> is the concatenation of the
  collector's results in the order of the ids, each result in its own order. On success
  the handler calls the per-item callback once for each entry of
  \<^verbatim>\<open>response.pipeline_responses\<close>, in order, with the entry and the commit flag that
  \<^verbatim>\<open>submitTransactions\<close> got (true when it got none), and afterwards the extra callback
  on the whole response when one was given. (Callbacks that return: \<open>each\<close> and
  \<open>extra\<close> are what they do to the state.)
\<close>

theorem submitTransactions_request_and_callbacks:
  assumes "\<forall>i \<in> set elementIds. collectTransactions d i = Inr (collected i)"
  shows "submitTransactions d endpointUrl elementIds commit_arg =
           Inr \<lparr>url = endpointUrl, http_method = ''post'', dataType = ''json'',
                data = \<lparr>pd_commit = or_default True commit_arg,
                         pd_transactions = concat (map collected elementIds)\<rparr>\<rparr>
       \<and> submitTransactions_done commit_arg (\<lambda>e c s. Inr (each e c s)) None resp s =
           Inr (fold (\<lambda>e. each e (or_default True commit_arg)) (pipeline_responses resp) s)
       \<and> submitTransactions_done commit_arg (\<lambda>e c s. Inr (each e c s))
             (Some (\<lambda>r s. Inr (extra r s))) resp s =
           Inr (extra resp
                 (fold (\<lambda>e. each e (or_default True commit_arg)) (pipeline_responses resp) s))"
proof (intro conjI)
  show "submitTransactions d endpointUrl elementIds commit_arg =
           Inr \<lparr>url = endpointUrl, http_method = ''post'', dataType = ''json'',
                data = \<lparr>pd_commit = or_default True commit_arg,
                         pd_transactions = concat (map collected elementIds)\<rparr>\<rparr>"
    using array_map_ok [of elementIds "collectTransactions d" collected] assms
    by (simp add: submitTransactions_def Let_def)
  have loop: "forEach (\<lambda>r. (\<lambda>e c s. Inr (each e c s)) r (or_default True commit_arg))
                (pipeline_responses resp) s
              = Inr (fold (\<lambda>e. each e (or_default True commit_arg)) (pipeline_responses resp) s)"
    using forEach_total [of "\<lambda>e. each e (or_default True commit_arg)" "pipeline_responses resp" s]
    by simp
  show "submitTransactions_done commit_arg (\<lambda>e c s. Inr (each e c s)) None resp s =
           Inr (fold (\<lambda>e. each e (or_default True commit_arg)) (pipeline_responses resp) s)"
    using loop by (simp add: submitTransactions_done_def Let_def)
  show "submitTransactions_done commit_arg (\<lambda>e c s. Inr (each e c s))
             (Some (\<lambda>r s. Inr (extra r s))) resp s =
           Inr (extra resp
                 (fold (\<lambda>e. each e (or_default True commit_arg)) (pipeline_responses resp) s))"
    using loop by (simp add: submitTransactions_done_def Let_def)
qed

text \<open>C5 on a document with two containers, listed against document order, with
  \<^verbatim>\<open>commit = false\<close>, and on a response with two entries and callbacks that record
  their calls.\<close>

theorem submitTransactions_request_and_callbacks_witness:
  "submitTransactions (batch2 @ batch1) ''/pipeline'' [''batch1'', ''batch2''] (Some False) =
     Inr \<lparr>url = ''/pipeline'', http_method = ''post'', dataType = ''json'',
          data = \<lparr>pd_commit = False,
                   pd_transactions =
                     [[(''transaction_id'', JStr ''t1''), (''amount'', JStr ''50''),
                       (''do_not_skip'', JBool True)],
                      [(''transaction_id'', JStr ''a''), (''pipeline_section_id'', JStr ''7'')],
                      [(''transaction_id'', JStr ''c''), (''pipeline_section_id'', JStr ''7''),
                       (''do_not_skip'', JBool True)]]\<rparr>\<rparr>
   \<and> submitTransactions_done (Some False) (\<lambda>e c s. Inr (record_response e c s))
        (Some (\<lambda>r s. Inr (record_extra r s)))
        \<lparr>pipeline_responses = [entry_for ''t1'' 1 None, entry_for ''a'' 0 None]\<rparr> [] =
     Inr [ResponseCallback (entry_for ''t1'' 1 None) False,
          ResponseCallback (entry_for ''a'' 0 None) False,
          ExtraCallback \<lparr>pipeline_responses = [entry_for ''t1'' 1 None, entry_for ''a'' 0 None]\<rparr>]"
  using submitTransactions_request_and_callbacks
    [of "[''batch1'', ''batch2'']" "batch2 @ batch1"
        "\<lambda>i. projr (collectTransactions (batch2 @ batch1) i)"
        "''/pipeline''" "Some False" record_response
        "\<lparr>pipeline_responses = [entry_for ''t1'' 1 None, entry_for ''a'' 0 None]\<rparr>" "[]"
        record_extra]
  by (simp add: batch1_def t1_row_def t1_feedback_def batch2_def plain_row_def collector_defs
        or_default_def record_response_def record_extra_def)

text \<open>
  The handler with the default callback on the response of the specification's scenario,
  one entry for row \<^verbatim>\<open>t1\<close> with verdict 1 and a warning: under commit intent the row is
  removed, without it the row stays and shows the warning.
\<close>

lemma unbalanced_amount_scenario:
  \<open>submitTransactions_done (Some True) processResponse_callback None
      \<lparr>pipeline_responses =
         [\<lparr>transaction_id = ''t1'', errors = [], warnings = [''Unbalanced amount''],
           verdict = 1, committed = Some False\<rparr>]\<rparr> batch1
    = Inr [\<lparr>container_id = ''batch1'', pipeline_section_attr = None, container_rows = []\<rparr>]
   \<and> submitTransactions_done (Some False) processResponse_callback None
      \<lparr>pipeline_responses =
         [\<lparr>transaction_id = ''t1'', errors = [], warnings = [''Unbalanced amount''],
           verdict = 1, committed = Some False\<rparr>]\<rparr> batch1
    = Inr [\<lparr>container_id = ''batch1'', pipeline_section_attr = None,
            container_rows = [t1_row\<lparr>row_feedback :=
              Some \<lparr>ds_verdict = Some ''suggest-skip'', ds_commit = None,
                    innerHTML = ''<ul class="transaction-warnings"><li>Unbalanced amount</li></ul>''\<rparr>\<rparr>]\<rparr>]\<close>
  by (simp add: submitTransactions_done_def processResponse_callback_def sample_defs
        response_defs list_items_def)

section \<open>The commit flag and the verdict discard\<close>

subsection \<open>Properties of every feedback element are kept by the operations\<close>

lemma replace_first_all:
  "\<forall>x \<in> set xs. R x \<Longrightarrow> \<forall>x \<in> set xs. \<forall>y \<in> set (f x). R y \<Longrightarrow>
   \<forall>y \<in> set (replace_first P f xs). R y"
  by (induction xs) auto

lemma jq_row_in_rows: "jq_row d tid = Some r \<Longrightarrow> r \<in> set (all_rows d)"
  unfolding jq_row_def by (induction "all_rows d" arbitrary: d) (auto simp: find_Some_iff)

lemma all_feedback_found:
  assumes "all_feedback Q d" and "jq_row d tid = Some r" and "row_feedback r = Some fb"
  shows "Q fb"
  using assms jq_row_in_rows [OF assms(2)] by (auto simp: all_feedback_def)

lemma all_feedback_remove_element:
  "all_feedback Q d \<Longrightarrow> all_feedback Q (remove_element tid d)"
  unfolding all_feedback_def remove_element_def all_rows_change_row
  by (rule replace_first_all) auto

lemma all_feedback_put_feedback:
  "all_feedback Q d \<Longrightarrow> Q fb \<Longrightarrow> all_feedback Q (put_feedback tid fb d)"
  unfolding all_feedback_def put_feedback_def all_rows_change_row
  by (rule replace_first_all) auto

lemma all_feedback_processResponse:
  assumes closed: "\<And>fb v h. Q fb \<Longrightarrow> Q ((apply_verdict v fb)\<lparr>innerHTML := h\<rparr>)"
    and inv: "all_feedback Q d"
    and run: "processResponse d entry ci = Inr d'"
  shows "all_feedback Q d'"
proof (cases "or_default False ci \<and> (or_default False (committed entry) \<or> verdict entry > 0)")
  case True
  from processResponse_removal_path [OF True, of d] run
  have "d' = remove_element (transaction_id entry) d" by simp
  then show ?thesis using inv by (simp add: all_feedback_remove_element)
next
  case False
  show ?thesis
  proof (cases "find_feedback (jq_row d (transaction_id entry))")
    case None
    from processResponse_throws [OF False None] run show ?thesis by simp
  next
    case (Some fb)
    then obtain r where r: "jq_row d (transaction_id entry) = Some r" and fb: "row_feedback r = Some fb"
      by (auto simp: find_feedback_def split: option.splits)
    have "Q fb" by (rule all_feedback_found [OF inv r fb])
    then have "Q ((apply_verdict (verdict entry) fb)
                    \<lparr>innerHTML := feedback_markup (errors entry) (warnings entry)\<rparr>)"
      by (rule closed)
    moreover from processResponse_update_path [OF False r fb] run
    have "d' = put_feedback (transaction_id entry)
                 ((apply_verdict (verdict entry) fb)
                    \<lparr>innerHTML := feedback_markup (errors entry) (warnings entry)\<rparr>) d"
      by simp
    ultimately show ?thesis using inv by (simp add: all_feedback_put_feedback)
  qed
qed

lemma all_rows_update_subset:
  "set (all_rows (d[i := c])) \<subseteq> set (all_rows d) \<union> set (container_rows c)"
  using set_update_subset_insert [of d i c] by (auto simp: all_rows_def)

lemma container_rows_in_all_rows:
  assumes "i < length d"
  shows "set (container_rows (d ! i)) \<subseteq> set (all_rows d)"
proof
  fix r
  assume "r \<in> set (container_rows (d ! i))"
  moreover from assms have "d ! i \<in> set d" by simp
  ultimately show "r \<in> set (all_rows d)"
    unfolding all_rows_def by (auto intro: bexI [of _ "d ! i"])
qed

lemma all_feedback_set_row_feedback:
  assumes "all_feedback Q d" and "Q fb" and "i < length d"
  shows "all_feedback Q (set_row_feedback i j fb d)"
proof -
  let ?rows = "container_rows (d ! i)"
  let ?r = "(?rows ! j)\<lparr>row_feedback := Some fb\<rparr>"
  have "set (?rows[j := ?r]) \<subseteq> insert ?r (set (all_rows d))"
    using set_update_subset_insert [of ?rows j ?r] container_rows_in_all_rows [OF assms(3)]
    by blast
  then have "set (all_rows (set_row_feedback i j fb d)) \<subseteq> insert ?r (set (all_rows d))"
    using all_rows_update_subset [of d i "(d ! i)\<lparr>container_rows := ?rows[j := ?r]\<rparr>"]
    by (auto simp: set_row_feedback_def)
  then show ?thesis using assms(1,2) by (auto simp: all_feedback_def)
qed

lemma all_feedback_step:
  assumes mark: "\<And>fb c. Q fb \<Longrightarrow> Q (snd (markForCommit fb c))"
    and resp: "\<And>fb v h. Q fb \<Longrightarrow> Q ((apply_verdict v fb)\<lparr>innerHTML := h\<rparr>)"
    and "step d d'" and "all_feedback Q d"
  shows "all_feedback Q d'"
  using assms(3,4)
proof (induction rule: step.induct)
  case (step_mark i d j fb commit)
  have "container_rows (d ! i) ! j \<in> set (all_rows d)"
    using step_mark.hyps(1,2) container_rows_in_all_rows [of i d] nth_mem by blast
  with step_mark.hyps(3) step_mark.prems have "Q fb"
    by (auto simp: all_feedback_def)
  then have "Q (snd (markForCommit fb commit))" by (rule mark)
  then show ?case
    using step_mark.prems step_mark.hyps(1) by (simp add: all_feedback_set_row_feedback)
next
  case (step_response d entry ci d')
  show ?case
    by (rule all_feedback_processResponse [of Q, OF resp step_response.prems step_response.hyps])
qed

lemma all_feedback_reachable:
  assumes mark: "\<And>fb c. Q fb \<Longrightarrow> Q (snd (markForCommit fb c))"
    and resp: "\<And>fb v h. Q fb \<Longrightarrow> Q ((apply_verdict v fb)\<lparr>innerHTML := h\<rparr>)"
    and "rtranclp step d0 d" and "all_feedback Q d0"
  shows "all_feedback Q d"
  using assms(3,4)
proof (induction rule: rtranclp_induct)
  case base
  then show ?case .
next
  case (step y z)
  from step.IH [OF step.prems] have inv_y: "all_feedback Q y" .
  show ?case
  proof (rule all_feedback_step [where d = y])
    show "step y z" by (rule step.hyps(2))
    show "all_feedback Q y" by (rule inv_y)
    show "Q (snd (markForCommit fb c))" if "Q fb" for fb c
      using that by (rule mark)
    show "Q ((apply_verdict v fb)\<lparr>innerHTML := h\<rparr>)" if "Q fb" for fb v h
      using that by (rule resp)
  qed
qed

lemma markForCommit_locked: "locked fb \<Longrightarrow> markForCommit fb c = (False, fb)"
  by (auto simp: markForCommit_def locked_def)

lemma markForCommit_keeps_no_discard_commit:
  "\<not> discard_and_commit fb \<Longrightarrow> \<not> discard_and_commit (snd (markForCommit fb c))"
  by (auto simp: markForCommit_def discard_and_commit_def split: option.splits)

lemma apply_verdict_keeps_no_discard_commit:
  "\<not> discard_and_commit fb \<Longrightarrow> \<not> discard_and_commit ((apply_verdict v fb)\<lparr>innerHTML := h\<rparr>)"
  by (auto simp: apply_verdict_def discard_and_commit_def)

lemma markForCommit_keeps_locked_unmarked:
  "locked fb \<longrightarrow> ds_commit fb = None \<Longrightarrow>
   locked (snd (markForCommit fb c)) \<longrightarrow> ds_commit (snd (markForCommit fb c)) = None"
  by (auto simp: markForCommit_def locked_def split: option.splits)

lemma apply_verdict_keeps_locked_unmarked:
  "locked fb \<longrightarrow> ds_commit fb = None \<Longrightarrow>
   locked ((apply_verdict v fb)\<lparr>innerHTML := h\<rparr>) \<longrightarrow>
   ds_commit ((apply_verdict v fb)\<lparr>innerHTML := h\<rparr>) = None"
  by (auto simp: apply_verdict_def locked_def)

subsection \<open>The invariant\<close>

text \<open>
  Start from a document in which no feedback element has both the verdict
  \<^verbatim>\<open>discard\<close> and the commit flag (the page as rendered: no verdict yet). In every
  state reached by any sequence of \<^verbatim>\<open>markForCommit\<close> and \<^verbatim>\<open>processResponse\<close>
  operations, no row's feedback element has both. \<^verbatim>\<open>markForCommit(feedback, true)\<close>
  returns false and leaves the element as it is whenever the verdict is \<^verbatim>\<open>discard\<close>
  or absent. And when at the start no element without verdict carries the flag, then in
  every reachable state every element whose verdict is \<^verbatim>\<open>discard\<close> or absent has the
  flag unset.
\<close>

theorem discard_never_marked:
  assumes "rtranclp step d0 d"
  shows "(no_discard_commit d0 \<longrightarrow> no_discard_commit d)
       \<and> (\<forall>fb. locked fb \<longrightarrow> markForCommit fb True = (False, fb))
       \<and> (locked_unmarked d0 \<longrightarrow> locked_unmarked d)"
proof (intro conjI impI allI)
  assume "no_discard_commit d0"
  then have start: "all_feedback (\<lambda>fb. \<not> discard_and_commit fb) d0"
    by (simp add: no_discard_commit_def)
  have "all_feedback (\<lambda>fb. \<not> discard_and_commit fb) d"
  proof (rule all_feedback_reachable [where ?d0.0 = d0])
    show "rtranclp step d0 d" by (rule assms)
    show "all_feedback (\<lambda>fb. \<not> discard_and_commit fb) d0" by fact
    show "\<not> discard_and_commit (snd (markForCommit fb c))" if "\<not> discard_and_commit fb" for fb c
      using that by (rule markForCommit_keeps_no_discard_commit)
    show "\<not> discard_and_commit ((apply_verdict v fb)\<lparr>innerHTML := h\<rparr>)"
      if "\<not> discard_and_commit fb" for fb v h
      using that by (rule apply_verdict_keeps_no_discard_commit)
  qed
  then show "no_discard_commit d"
    by (simp add: no_discard_commit_def)
next
  fix fb
  assume "locked fb"
  then show "markForCommit fb True = (False, fb)"
    by (rule markForCommit_locked)
next
  assume "locked_unmarked d0"
  then have "all_feedback (\<lambda>fb. locked fb \<longrightarrow> ds_commit fb = None) d0"
    by (simp add: locked_unmarked_def)
  have "all_feedback (\<lambda>fb. locked fb \<longrightarrow> ds_commit fb = None) d"
  proof (rule all_feedback_reachable [where ?d0.0 = d0])
    show "rtranclp step d0 d" by (rule assms)
    show "all_feedback (\<lambda>fb. locked fb \<longrightarrow> ds_commit fb = None) d0" by fact
    show "locked (snd (markForCommit fb c)) \<longrightarrow> ds_commit (snd (markForCommit fb c)) = None"
      if "locked fb \<longrightarrow> ds_commit fb = None" for fb c
      using that by (rule markForCommit_keeps_locked_unmarked)
    show "locked ((apply_verdict v fb)\<lparr>innerHTML := h\<rparr>) \<longrightarrow>
          ds_commit ((apply_verdict v fb)\<lparr>innerHTML := h\<rparr>) = None"
      if "locked fb \<longrightarrow> ds_commit fb = None" for fb v h
      using that by (rule apply_verdict_keeps_locked_unmarked)
  qed
  then show "locked_unmarked d"
    by (simp add: locked_unmarked_def)
qed

text \<open>The invariant on a run: the rendered page, a response with verdict 3 without commit
  intent, then \<^verbatim>\<open>markForCommit(feedback, true)\<close> on the discarded row.\<close>

theorem discard_never_marked_witness:
  "rtranclp step fresh_page discarded_page
   \<and> no_discard_commit fresh_page \<and> no_discard_commit discarded_page
   \<and> locked_unmarked fresh_page \<and> locked_unmarked discarded_page
   \<and> locked \<lparr>ds_verdict = Some ''discard'', ds_commit = None, innerHTML = []\<rparr>
   \<and> markForCommit \<lparr>ds_verdict = Some ''discard'', ds_commit = None, innerHTML = []\<rparr> True
       = (False, \<lparr>ds_verdict = Some ''discard'', ds_commit = None, innerHTML = []\<rparr>)"
proof -
  have s1: "step fresh_page discarded_page"
    using step_response [of fresh_page "entry_for ''x'' 3 None" "Some False" discarded_page]
    by (simp add: sample_defs response_defs)
  have s2: "step discarded_page discarded_page"
    using step_mark [of 0 discarded_page 0
        "\<lparr>ds_verdict = Some ''discard'', ds_commit = None, innerHTML = []\<rparr>" True]
    by (simp add: sample_defs set_row_feedback_def markForCommit_def)
  have "rtranclp step fresh_page discarded_page"
    using s1 by (rule r_into_rtranclp)
  then have reach: "rtranclp step fresh_page discarded_page"
    using s2 by (rule rtranclp.rtrancl_into_rtrancl)
  have start: "no_discard_commit fresh_page \<and> locked_unmarked fresh_page"
    by (simp add: sample_defs no_discard_commit_def locked_unmarked_def all_feedback_def
          all_rows_def discard_and_commit_def)
  have "locked \<lparr>ds_verdict = Some ''discard'', ds_commit = None, innerHTML = []\<rparr>"
    by (simp add: locked_def)
  with discard_never_marked [OF reach] reach start show ?thesis
    by simp
qed


end
